theory Spec2Isabelle
  imports Main
begin

section \<open>JavaScript values used by the examples\<close>

text \<open>
  The snippets only move primitive values around: ids produced by \<^verbatim>\<open>nextId++\<close>,
  texts, the flag \<^verbatim>\<open>done\<close>, and the value of \<^verbatim>\<open>action.type\<close>. The values
  are \<^verbatim>\<open>undefined\<close>, \<^verbatim>\<open>null\<close>, the booleans, the strings (lists of bytes,
  UTF-8), the symbols (each with its own identity, a number here) and, of the numbers,
  the integers and \<^verbatim>\<open>NaN\<close>. \<open>JNum n\<close> is a number of the language when \<open>n\<close> is
  a safe integer; fractions, the infinities, big integers and objects are not values
  of this type.
\<close>

datatype jsval =
  JUndefined | JNull | JBool bool | JNum int | JNaN | JStr string | JSymbol nat


text \<open>
  \<^verbatim>\<open>a === b\<close> on two such values: the same type and the same value, except that
  \<^verbatim>\<open>NaN\<close> equals nothing, itself included. \<^verbatim>\<open>a !== b\<close> is its negation, and
  \<^verbatim>\<open>switch\<close> compares with \<^verbatim>\<open>===\<close>.
\<close>

definition strictEq :: "jsval \<Rightarrow> jsval \<Rightarrow> bool" where
  "strictEq a b = (a = b \<and> a \<noteq> JNaN)"

text \<open>
  What \<^verbatim>\<open>throw\<close> can raise in the snippets: \<^verbatim>\<open>Error(message)\<close>, written by the
  code itself, and the \<^verbatim>\<open>TypeError\<close> of the language when a property of
  \<^verbatim>\<open>undefined\<close> is read or a value that is not a function is called (its message
  depends on the engine and is left out).
\<close>

datatype error = Error string | TypeError

subsection \<open>String conversion, as \<^verbatim>\<open>'...' + v\<close> performs it\<close>

fun digitsOf :: "nat \<Rightarrow> string" where
  "digitsOf n =
     (if n < 10 then [char_of (48 + n)]
      else digitsOf (n div 10) @ [char_of (48 + n mod 10)])"

declare digitsOf.simps [simp del]

text \<open>
  A safe integer prints as its decimal digits, with a minus sign when negative. Beyond
  the safe integers the language prints the shortest digits that give the number back
  (and an exponent from \<open>10^21\<close> on), which \<open>showInt\<close> does not do: what is proved
  of the printed form of a number is proved of safe integers only.
\<close>

definition showInt :: "int \<Rightarrow> string" where
  "showInt n = (if n < 0 then CHR ''-'' # digitsOf (nat (- n)) else digitsOf (nat n))"

text \<open>
  \<^verbatim>\<open>'Unknown action: ' + v\<close> converts \<open>v\<close> to a string; a symbol cannot be
  converted, and the addition throws a \<^verbatim>\<open>TypeError\<close>.
\<close>

fun toString :: "jsval \<Rightarrow> error + string" where
  "toString JUndefined = Inr ''undefined''"
| "toString JNull = Inr ''null''"
| "toString (JBool b) = Inr (if b then ''true'' else ''false'')"
| "toString (JNum n) = Inr (showInt n)"
| "toString JNaN = Inr ''NaN''"
| "toString (JStr s) = Inr s"
| "toString (JSymbol k) = Inl TypeError"

section \<open>The reducer example\<close>

text \<open>
  A task is \<^verbatim>\<open>{ id, text, done }\<close>. An action is an object whose property
  \<^verbatim>\<open>type\<close> says what happened; \<^verbatim>\<open>id\<close> and \<^verbatim>\<open>text\<close> are read by
  \<^verbatim>\<open>'added'\<close> and \<^verbatim>\<open>'deleted'\<close>, \<^verbatim>\<open>task\<close> by \<^verbatim>\<open>'changed'\<close>. A property
  the object does not have reads as \<^verbatim>\<open>undefined\<close>: \<open>JUndefined\<close> for the
  primitive ones, \<open>None\<close> for \<^verbatim>\<open>task\<close>. The tasks list is an array of task
  objects. The fields carry a prefix, since \<open>id\<close> is the identity function of HOL.
\<close>

record task =
  t_id :: jsval
  t_text :: jsval
  t_done :: jsval

record action =
  a_type :: jsval
  a_id :: jsval
  a_text :: jsval
  a_task :: "task option"

text \<open>
  \<^verbatim>\<open>tasks.map(t => { if (t.id === action.task.id) return action.task; else return t; })\<close>:
  the callback runs once for each element, and reading \<^verbatim>\<open>action.task.id\<close> throws a
  \<^verbatim>\<open>TypeError\<close> when \<^verbatim>\<open>action.task\<close> is \<^verbatim>\<open>undefined\<close>. On an empty array
  the callback never runs.
\<close>

fun changedMap :: "task option \<Rightarrow> task list \<Rightarrow> error + task list" where
  "changedMap tk [] = Inr []"
| "changedMap None (t # ts) = Inl TypeError"
| "changedMap (Some k) (t # ts) =
     (case changedMap (Some k) ts of
        Inl e \<Rightarrow> Inl e
      | Inr r \<Rightarrow> Inr ((if strictEq (t_id t) (t_id k) then k else t) # r))"

definition tasksReducer :: "task list \<Rightarrow> action \<Rightarrow> error + task list" where
  "tasksReducer tasks action =
     (if a_type action = JStr ''added'' then
        Inr (tasks @ [\<lparr>t_id = a_id action, t_text = a_text action, t_done = JBool False\<rparr>])
      else if a_type action = JStr ''changed'' then
        changedMap (a_task action) tasks
      else if a_type action = JStr ''deleted'' then
        Inr (filter (\<lambda>t. \<not> strictEq (t_id t) (a_id action)) tasks)
      else
        (case toString (a_type action) of
           Inl e \<Rightarrow> Inl e
         | Inr s \<Rightarrow> Inl (Error (''Unknown action: '' @ s))))"

subsection \<open>The reducer on a store of objects\<close>

text \<open>
  Arrays and objects are references in JavaScript. To say that the reducer leaves its
  arguments alone and hands back a new array, the same function is written once more
  over a store: a list of cells, an address being an index. \<^verbatim>\<open>[...tasks, {...}]\<close>,
  \<^verbatim>\<open>map\<close> and \<^verbatim>\<open>filter\<close> allocate the array they return (and the object literal
  its object) at the end of the store; nothing in the function assigns to a property
  or an index. An array holds references to its elements, and \<^verbatim>\<open>action.task\<close> is
  a reference too, so that \<^verbatim>\<open>'changed'\<close> puts the very object of the action in the
  new array. A thrown error is a value, not a cell.
\<close>

type_synonym addr = nat

record actionRef =
  r_type :: jsval
  r_id :: jsval
  r_text :: jsval
  r_task :: "addr option"

datatype cell = Arr "addr list" | TaskObj task | ActionObj actionRef

type_synonym heap = "cell list"

definition lookup :: "heap \<Rightarrow> addr \<Rightarrow> cell option" where
  "lookup h p = (if p < length h then Some (h ! p) else None)"

definition alloc :: "heap \<Rightarrow> cell \<Rightarrow> heap \<times> addr" where
  "alloc h c = (h @ [c], length h)"

definition getArr :: "heap \<Rightarrow> addr \<Rightarrow> addr list option" where
  "getArr h p = (case lookup h p of Some (Arr ps) \<Rightarrow> Some ps | _ \<Rightarrow> None)"

definition getTask :: "heap \<Rightarrow> addr \<Rightarrow> task option" where
  "getTask h p = (case lookup h p of Some (TaskObj t) \<Rightarrow> Some t | _ \<Rightarrow> None)"

definition getAction :: "heap \<Rightarrow> addr \<Rightarrow> actionRef option" where
  "getAction h p = (case lookup h p of Some (ActionObj a) \<Rightarrow> Some a | _ \<Rightarrow> None)"

text \<open>
  The result \<open>None\<close> of the functions below stands for a store that no run of a
  program produces (a reference to nothing, or to a cell of another kind); an error the
  code throws is \<open>Some (Inl e)\<close>. The callback of \<^verbatim>\<open>map\<close> reads \<^verbatim>\<open>t.id\<close>, then
  \<^verbatim>\<open>action.task.id\<close>.
\<close>

fun changedMap_h :: "heap \<Rightarrow> addr option \<Rightarrow> addr list \<Rightarrow> (error + addr list) option" where
  "changedMap_h h k [] = Some (Inr [])"
| "changedMap_h h None (p # ps) =
     (case getTask h p of None \<Rightarrow> None | Some t \<Rightarrow> Some (Inl TypeError))"
| "changedMap_h h (Some q) (p # ps) =
     (case getTask h p of
        None \<Rightarrow> None
      | Some t \<Rightarrow>
          (case getTask h q of
             None \<Rightarrow> None
           | Some k \<Rightarrow>
               (case changedMap_h h (Some q) ps of
                  None \<Rightarrow> None
                | Some (Inl e) \<Rightarrow> Some (Inl e)
                | Some (Inr r) \<Rightarrow>
                    Some (Inr ((if strictEq (t_id t) (t_id k) then q else p) # r)))))"

fun deletedFilter_h :: "heap \<Rightarrow> jsval \<Rightarrow> addr list \<Rightarrow> addr list option" where
  "deletedFilter_h h i [] = Some []"
| "deletedFilter_h h i (p # ps) =
     (case getTask h p of
        None \<Rightarrow> None
      | Some t \<Rightarrow>
          (case deletedFilter_h h i ps of
             None \<Rightarrow> None
           | Some r \<Rightarrow> Some (if \<not> strictEq (t_id t) i then p # r else r)))"

definition tasksReducer_h :: "heap \<Rightarrow> addr \<Rightarrow> addr \<Rightarrow> (heap \<times> (error + addr)) option" where
  "tasksReducer_h h tasks action =
     (case getArr h tasks of
        None \<Rightarrow> None
      | Some ps \<Rightarrow>
          (case getAction h action of
             None \<Rightarrow> None
           | Some a \<Rightarrow>
               (if r_type a = JStr ''added'' then
                  (let (h1, obj) = alloc h (TaskObj \<lparr>t_id = r_id a, t_text = r_text a, t_done = JBool False\<rparr>);
                       (h2, res) = alloc h1 (Arr (ps @ [obj]))
                   in Some (h2, Inr res))
                else if r_type a = JStr ''changed'' then
                  (case changedMap_h h (r_task a) ps of
                     None \<Rightarrow> None
                   | Some (Inl e) \<Rightarrow> Some (h, Inl e)
                   | Some (Inr qs) \<Rightarrow> (let (h1, res) = alloc h (Arr qs) in Some (h1, Inr res)))
                else if r_type a = JStr ''deleted'' then
                  (case deletedFilter_h h (r_id a) ps of
                     None \<Rightarrow> None
                   | Some qs \<Rightarrow> (let (h1, res) = alloc h (Arr qs) in Some (h1, Inr res)))
                else
                  (case toString (r_type a) of
                     Inl e \<Rightarrow> Some (h, Inl e)
                   | Inr s \<Rightarrow> Some (h, Inl (Error (''Unknown action: '' @ s)))))))"

text \<open>Reading a tasks array, an action and a result out of the store, as values.\<close>

fun loadTasks :: "heap \<Rightarrow> addr list \<Rightarrow> task list option" where
  "loadTasks h [] = Some []"
| "loadTasks h (p # ps) =
     (case getTask h p of
        None \<Rightarrow> None
      | Some t \<Rightarrow> (case loadTasks h ps of None \<Rightarrow> None | Some ts \<Rightarrow> Some (t # ts)))"

definition absTasks :: "heap \<Rightarrow> addr \<Rightarrow> task list option" where
  "absTasks h p = (case getArr h p of None \<Rightarrow> None | Some ps \<Rightarrow> loadTasks h ps)"

definition absAction :: "heap \<Rightarrow> addr \<Rightarrow> action option" where
  "absAction h p =
     (case getAction h p of
        None \<Rightarrow> None
      | Some a \<Rightarrow>
          (case r_task a of
             None \<Rightarrow> Some \<lparr>a_type = r_type a, a_id = r_id a, a_text = r_text a, a_task = None\<rparr>
           | Some q \<Rightarrow>
               (case getTask h q of
                  None \<Rightarrow> None
                | Some k \<Rightarrow>
                    Some \<lparr>a_type = r_type a, a_id = r_id a, a_text = r_text a, a_task = Some k\<rparr>)))"

definition absResult :: "heap \<Rightarrow> error + addr \<Rightarrow> (error + task list) option" where
  "absResult h r =
     (case r of
        Inl e \<Rightarrow> Some (Inl e)
      | Inr p \<Rightarrow> (case absTasks h p of None \<Rightarrow> None | Some ts \<Rightarrow> Some (Inr ts)))"

section \<open>Elements, props and rendering\<close>

text \<open>
  A prop or an attribute holds a primitive or an object of primitives. The props of a
  component are one object; destructuring \<^verbatim>\<open>{ name, imageId, size }\<close> reads each
  name from it, and a name the object does not have gives \<^verbatim>\<open>undefined\<close>; of a name written
  twice the last value counts.
\<close>

datatype "value" = Prim jsval | Obj "(string \<times> jsval) list"

type_synonym props = "(string \<times> value) list"

definition getProp :: "props \<Rightarrow> string \<Rightarrow> value" where
  "getProp ps k = (case map_of (rev ps) k of None \<Rightarrow> Prim JUndefined | Some v \<Rightarrow> v)"

text \<open>
  An element has a tag (or the name of a component not expanded here), attributes and
  children; \<open>Expr v\<close> is a text or a \<^verbatim>\<open>{...}\<close> child with value \<open>v\<close>.
\<close>

datatype node = Element string props "node list" | Expr "value"

text \<open>
  What a child shows: a string is its text, a number its printed form; \<^verbatim>\<open>true\<close>,
  \<^verbatim>\<open>false\<close>, \<^verbatim>\<open>null\<close> and \<^verbatim>\<open>undefined\<close> show nothing; an object is not a
  valid child (\<open>None\<close>).
\<close>

fun rendered :: "value \<Rightarrow> string option" where
  "rendered (Prim (JStr s)) = Some s"
| "rendered (Prim (JNum n)) = Some (showInt n)"
| "rendered (Prim JNaN) = Some ''NaN''"
| "rendered (Prim v) = Some []"
| "rendered (Obj kvs) = None"

fun textContent :: "node \<Rightarrow> string option" and textContents :: "node list \<Rightarrow> string option" where
  "textContent (Expr v) = rendered v"
| "textContent (Element t as cs) = textContents cs"
| "textContents [] = Some []"
| "textContents (c # cs) =
     (case textContent c of
        None \<Rightarrow> None
      | Some s \<Rightarrow> (case textContents cs of None \<Rightarrow> None | Some r \<Rightarrow> Some (s @ r)))"

fun attr :: "node \<Rightarrow> string \<Rightarrow> value" where
  "attr (Element t as cs) k = getProp as k"
| "attr (Expr v) k = Prim JUndefined"

subsection \<open>The three \<^verbatim>\<open>Item\<close> components of the conditional rendering lesson\<close>

text \<open>The check mark U+2714, in UTF-8.\<close>

definition checkmark :: string where
  "checkmark = [CHR 0xE2, CHR 0x9C, CHR 0x94]"

text \<open>
  \<^verbatim>\<open>if (isPacked) return <li className="item">{name} CHECK</li>;
  return <li className="item">{name}</li>;\<close>
  The text after \<^verbatim>\<open>{name}\<close> on the same line keeps its leading space.
\<close>

definition Item_if :: "string \<Rightarrow> bool \<Rightarrow> node" where
  "Item_if name isPacked =
     (if isPacked then
        Element ''li'' [(''className'', Prim (JStr ''item''))]
          [Expr (Prim (JStr name)), Expr (Prim (JStr (CHR '' '' # checkmark)))]
      else
        Element ''li'' [(''className'', Prim (JStr ''item''))] [Expr (Prim (JStr name))])"

text \<open>\<^verbatim>\<open><li className="item">{isPacked ? name + " CHECK" : name}</li>\<close>\<close>

definition Item_ternary :: "string \<Rightarrow> bool \<Rightarrow> node" where
  "Item_ternary name isPacked =
     Element ''li'' [(''className'', Prim (JStr ''item''))]
       [Expr (Prim (JStr (if isPacked then name @ CHR '' '' # checkmark else name)))]"

text \<open>
  \<^verbatim>\<open><li className="item">{name} {isPacked && "CHECK"}</li>\<close>: three children, the
  second the space between the two expressions, the third \<^verbatim>\<open>"CHECK"\<close> or
  \<^verbatim>\<open>false\<close>.
\<close>

definition Item_and :: "string \<Rightarrow> bool \<Rightarrow> node" where
  "Item_and name isPacked =
     Element ''li'' [(''className'', Prim (JStr ''item''))]
       [Expr (Prim (JStr name)), Expr (Prim (JStr '' '')),
        Expr (Prim (if isPacked then JStr checkmark else JBool False))]"

text \<open>
  What the reader of the page sees of a text: in normal flow the browser drops white
  space at both ends of the line and shows a run of white space as one space. This is
  the observation under which the lesson calls the three variants the same; it is not
  part of the snippets.
\<close>

definition isSpace :: "char \<Rightarrow> bool" where
  "isSpace c = (c = CHR '' '' \<or> c = CHR 0x09 \<or> c = CHR 0x0A \<or> c = CHR 0x0D)"

datatype flow = AtStart | InWord | AfterSpace

fun collapse :: "flow \<Rightarrow> string \<Rightarrow> string" where
  "collapse st [] = []"
| "collapse st (c # cs) =
     (if isSpace c then collapse (if st = AtStart then AtStart else AfterSpace) cs
      else (if st = AfterSpace then [CHR '' '', c] else [c]) @ collapse InWord cs)"

definition visibleText :: "string \<Rightarrow> string" where
  "visibleText s = collapse AtStart s"

definition visibleContent :: "node \<Rightarrow> string option" where
  "visibleContent n = map_option visibleText (textContent n)"

subsection \<open>The parent and child of the props example\<close>

text \<open>
  \<^verbatim>\<open>export default function Avatar({ name, imageId, size })\<close> returns a fragment:
  the image, then a \<^verbatim>\<open>Card\<close> (a component of another file, kept as an element)
  around a heading, a second image and a paragraph.
\<close>

definition Avatar :: "props \<Rightarrow> node" where
  "Avatar ps =
     (let name = getProp ps ''name''; imageId = getProp ps ''imageId''; size = getProp ps ''size''
      in Element ''Fragment'' []
           [Element ''img''
              [(''className'', Prim (JStr ''avatar'')), (''src'', imageId), (''alt'', name),
               (''width'', size), (''height'', size)] [],
            Element ''Card'' []
              [Element ''h2'' [] [Expr name],
               Element ''img'' [(''className'', Prim (JStr ''avatar'')), (''src'', imageId)] [],
               Element ''p'' []
                 [Expr (Prim (JStr (''Lorem ipsum dolor sit amet consectetur adipisicing elit. Iure soluta ''
                    @ ''tenetur aliquam autem, quisquam modi molestiae nemo tempora ''
                    @ ''consectetur reiciendis sapiente laudantium accusamus nulla animi ''
                    @ ''quidem necessitatibus ipsa, eaque aperiam?'')))]]])"

text \<open>
  The lesson's own version of the child,
  \<^verbatim>\<open>function Avatar({ person, size })\<close> with \<^verbatim>\<open>src={person.imageId}\<close> and
  \<^verbatim>\<open>alt={person.name}\<close>: reading a property of a \<^verbatim>\<open>person\<close> that is
  \<^verbatim>\<open>undefined\<close> or \<^verbatim>\<open>null\<close> throws, a primitive has neither property.
\<close>

definition Avatar_lesson :: "props \<Rightarrow> error + node" where
  "Avatar_lesson ps =
     (let person = getProp ps ''person''; size = getProp ps ''size''
      in case person of
           Prim JUndefined \<Rightarrow> Inl TypeError
         | Prim JNull \<Rightarrow> Inl TypeError
         | Prim v \<Rightarrow>
             Inr (Element ''img''
               [(''className'', Prim (JStr ''avatar'')), (''src'', Prim JUndefined),
                (''alt'', Prim JUndefined), (''width'', size), (''height'', size)] [])
         | Obj kvs \<Rightarrow>
             Inr (Element ''img''
               [(''className'', Prim (JStr ''avatar'')),
                (''src'', Prim (case map_of (rev kvs) ''imageId'' of None \<Rightarrow> JUndefined | Some v \<Rightarrow> v)),
                (''alt'', Prim (case map_of (rev kvs) ''name'' of None \<Rightarrow> JUndefined | Some v \<Rightarrow> v)),
                (''width'', size), (''height'', size)] []))"

text \<open>
  \<^verbatim>\<open>const user = { name: "Lin Lanying", imageId: "1bX5QH6" };
  return <div><Avatar person={user} size={100} /></div>;\<close>
\<close>

definition user :: "value" where
  "user = Obj [(''name'', JStr ''Lin Lanying''), (''imageId'', JStr ''1bX5QH6'')]"

definition ParentComponent :: node where
  "ParentComponent = Element ''div'' [] [Avatar [(''person'', user), (''size'', Prim (JNum 100))]]"

text \<open>The image that \<^verbatim>\<open>Avatar\<close> renders first.\<close>

fun firstChild :: "node \<Rightarrow> node option" where
  "firstChild (Element t as (c # cs)) = Some c"
| "firstChild n = None"

definition avatarImg :: "node option" where
  "avatarImg = (case firstChild ParentComponent of None \<Rightarrow> None | Some av \<Rightarrow> firstChild av)"

section \<open>The cart hook\<close>

text \<open>
  \<^verbatim>\<open>useCart\<close> keeps two pieces of state, \<^verbatim>\<open>items\<close> (initially \<^verbatim>\<open>[]\<close>) and
  \<^verbatim>\<open>total\<close> (initially \<^verbatim>\<open>0\<close>). Each of \<^verbatim>\<open>addItem\<close> and \<^verbatim>\<open>removeItem\<close>
  queues one updater for each; the updaters run on the previous value of their own
  piece of state. Prices and totals are integers; the sum of the model is the sum of
  the code as long as the numbers stay safe integers.
\<close>

record item =
  i_id :: jsval
  i_price :: int

record cart =
  items :: "item list"
  total :: int

definition initialCart :: cart where
  "initialCart = \<lparr>items = [], total = 0\<rparr>"

definition addItem :: "cart \<Rightarrow> item \<Rightarrow> cart" where
  "addItem c it = \<lparr>items = items c @ [it], total = total c + i_price it\<rparr>"

text \<open>\<^verbatim>\<open>setItems(prev => prev.filter(item => item.id !== id))\<close>\<close>

definition removeItem_items :: "item list \<Rightarrow> jsval \<Rightarrow> item list" where
  "removeItem_items prev i = filter (\<lambda>it. i_id it \<noteq> i) prev"

text \<open>
  \<^verbatim>\<open>setTotal(prev => { const itemToRemove = prev.find(item => item.id === id);
  return prev - (itemToRemove?.price || 0); })\<close>: here \<^verbatim>\<open>prev\<close> is the previous
  total, a number. A number has no property \<^verbatim>\<open>find\<close>, so \<^verbatim>\<open>prev.find\<close> is
  \<^verbatim>\<open>undefined\<close> and the call throws a \<^verbatim>\<open>TypeError\<close> before anything is
  subtracted.
\<close>

definition removeItem_total :: "int \<Rightarrow> jsval \<Rightarrow> error + int" where
  "removeItem_total prev i = Inl TypeError"

definition removeItem :: "cart \<Rightarrow> jsval \<Rightarrow> error + cart" where
  "removeItem c i =
     (let its = removeItem_items (items c) i
      in case removeItem_total (total c) i of
           Inl e \<Rightarrow> Inl e
         | Inr t \<Rightarrow> Inr \<lparr>items = its, total = t\<rparr>)"

definition sumPrices :: "item list \<Rightarrow> int" where
  "sumPrices its = sum_list (map i_price its)"

section \<open>Properties of the reducer\<close>

lemma strictEq_refl: "strictEq a a = (a \<noteq> JNaN)"
  by (simp add: strictEq_def)

lemma strictEq_NaN: "\<not> strictEq JNaN b" "\<not> strictEq a JNaN"
  by (auto simp: strictEq_def)

text \<open>
  The printed form of a natural number is its decimal numeral: digits only, no leading
  zero, and read as a numeral it is the number.
\<close>

lemma digitsOf_digit: "n < 10 \<Longrightarrow> digitsOf n = [char_of (48 + n)]"
  by (simp add: digitsOf.simps)

lemma digitsOf_step:
  "10 \<le> n \<Longrightarrow> digitsOf n = digitsOf (n div 10) @ [char_of (48 + n mod 10)]"
  by (subst digitsOf.simps) simp

lemma digitsOf_not_empty: "digitsOf n \<noteq> []"
  by (subst digitsOf.simps) simp

lemma of_char_digit: "d < 10 \<Longrightarrow> (of_char (char_of (48 + d :: nat)) :: nat) = 48 + d"
  by simp

lemma digitsOf_value:
  "foldl (\<lambda>acc c. 10 * acc + (of_char c - 48)) 0 (digitsOf n) = n"
proof (induction n rule: digitsOf.induct)
  case (1 n)
  show ?case
  proof (cases "n < 10")
    case True
    then show ?thesis by (simp add: digitsOf_digit)
  next
    case False
    with "1" show ?thesis by (simp add: digitsOf_step)
  qed
qed

lemma digitsOf_chars: "c \<in> set (digitsOf n) \<Longrightarrow> \<exists>d < 10. c = char_of (48 + d :: nat)"
proof (induction n rule: digitsOf.induct)
  case (1 n)
  show ?case
  proof (cases "n < 10")
    case True
    with "1.prems" show ?thesis by (auto simp: digitsOf_digit)
  next
    case False
    with "1" show ?thesis
      by (auto simp: digitsOf_step intro: exI [of _ "n mod 10"])
  qed
qed

lemma digitsOf_leading: "0 < n \<Longrightarrow> hd (digitsOf n) \<noteq> CHR ''0''"
proof (induction n rule: digitsOf.induct)
  case (1 n)
  show ?case
  proof (cases "n < 10")
    case True
    have "char_of (48 + n) \<noteq> CHR ''0''"
    proof
      assume "char_of (48 + n) = CHR ''0''"
      then have "(of_char (char_of (48 + n)) :: nat) = of_char CHR ''0''" by simp
      with True "1.prems" show False by (simp add: of_char_digit del: of_char_of)
    qed
    with True show ?thesis by (simp add: digitsOf_digit)
  next
    case False
    with "1" show ?thesis
      by (simp add: digitsOf_step digitsOf_not_empty)
  qed
qed



lemma changedMap_Some:
  "changedMap (Some k) ts = Inr (map (\<lambda>t. if strictEq (t_id t) (t_id k) then k else t) ts)"
  by (induction ts) simp_all


text \<open>
  A symbol as the type reaches the default branch, where the addition to the message
  fails: the reducer throws a \<^verbatim>\<open>TypeError\<close>, not the \<^verbatim>\<open>Error\<close> with the message.
\<close>

lemma unknown_action_symbol:
  "tasksReducer [] \<lparr>a_type = JSymbol 0, a_id = JUndefined, a_text = JUndefined, a_task = None\<rparr>
     = Inl TypeError"
  by (simp add: tasksReducer_def)




text \<open>
  C3: for every tasks list and every action of type \<^verbatim>\<open>'added'\<close> with id \<open>i\<close> and
  text \<open>t\<close>, the reducer returns the input list followed by the one new element
  \<^verbatim>\<open>{id: i, text: t, done: false}\<close>; the elements that were there are unchanged and in
  their order.
\<close>

theorem tasksReducer_added:
  assumes "a_type a = JStr ''added''" and "a_id a = i" and "a_text a = t"
  shows "tasksReducer tasks a = Inr (tasks @ [\<lparr>t_id = i, t_text = t, t_done = JBool False\<rparr>])"
  using assms by (simp add: tasksReducer_def)

theorem tasksReducer_added_witness:
  "tasksReducer [\<lparr>t_id = JNum 0, t_text = JStr ''a'', t_done = JBool True\<rparr>]
     \<lparr>a_type = JStr ''added'', a_id = JNum 1, a_text = JStr ''b'', a_task = None\<rparr>
   = Inr [\<lparr>t_id = JNum 0, t_text = JStr ''a'', t_done = JBool True\<rparr>,
          \<lparr>t_id = JNum 1, t_text = JStr ''b'', t_done = JBool False\<rparr>]"
  using tasksReducer_added
    [of "\<lparr>a_type = JStr ''added'', a_id = JNum 1, a_text = JStr ''b'', a_task = None\<rparr>"
        "JNum 1" "JStr ''b''" "[\<lparr>t_id = JNum 0, t_text = JStr ''a'', t_done = JBool True\<rparr>]"]
  by simp

text \<open>
  C4: for every tasks list and every action of type \<^verbatim>\<open>'changed'\<close> that carries a task
  object, the reducer returns a list of the same length in which every element whose id
  equals (\<^verbatim>\<open>===\<close>) \<^verbatim>\<open>action.task.id\<close> is replaced by \<^verbatim>\<open>action.task\<close> and every other element
  is the input element at that place.
\<close>

theorem tasksReducer_changed:
  assumes "a_type a = JStr ''changed''" and "a_task a = Some k"
  shows "\<exists>r. tasksReducer tasks a = Inr r \<and> length r = length tasks \<and>
           (\<forall>n < length tasks.
              r ! n = (if strictEq (t_id (tasks ! n)) (t_id k) then k else tasks ! n))"
  using assms by (simp add: tasksReducer_def changedMap_Some)

theorem tasksReducer_changed_witness:
  "\<exists>r. tasksReducer
          [\<lparr>t_id = JNum 0, t_text = JStr ''a'', t_done = JBool False\<rparr>,
           \<lparr>t_id = JNum 1, t_text = JStr ''b'', t_done = JBool False\<rparr>]
          \<lparr>a_type = JStr ''changed'', a_id = JUndefined, a_text = JUndefined,
           a_task = Some \<lparr>t_id = JNum 1, t_text = JStr ''c'', t_done = JBool True\<rparr>\<rparr> = Inr r
        \<and> length r = 2
        \<and> r ! 0 = \<lparr>t_id = JNum 0, t_text = JStr ''a'', t_done = JBool False\<rparr>
        \<and> r ! 1 = \<lparr>t_id = JNum 1, t_text = JStr ''c'', t_done = JBool True\<rparr>"
  using tasksReducer_changed
    [of "\<lparr>a_type = JStr ''changed'', a_id = JUndefined, a_text = JUndefined,
          a_task = Some \<lparr>t_id = JNum 1, t_text = JStr ''c'', t_done = JBool True\<rparr>\<rparr>"
        "\<lparr>t_id = JNum 1, t_text = JStr ''c'', t_done = JBool True\<rparr>"
        "[\<lparr>t_id = JNum 0, t_text = JStr ''a'', t_done = JBool False\<rparr>,
          \<lparr>t_id = JNum 1, t_text = JStr ''b'', t_done = JBool False\<rparr>]"]
  by (simp add: tasksReducer_def strictEq_def)

text \<open>
  C5: for every tasks list and every action of type \<^verbatim>\<open>'deleted'\<close> with id \<open>i\<close>, the
  reducer returns exactly the elements of the input whose id differs from \<open>i\<close>
  (\<^verbatim>\<open>!==\<close>), in their order; if no element has id \<open>i\<close>, the result equals the
  input list.
\<close>

theorem tasksReducer_deleted:
  assumes "a_type a = JStr ''deleted''" and "a_id a = i"
  shows "tasksReducer tasks a = Inr (filter (\<lambda>t. \<not> strictEq (t_id t) i) tasks) \<and>
         ((\<forall>t \<in> set tasks. \<not> strictEq (t_id t) i) \<longrightarrow> tasksReducer tasks a = Inr tasks)"
  using assms by (simp add: tasksReducer_def)

theorem tasksReducer_deleted_witness:
  "tasksReducer
     [\<lparr>t_id = JNum 0, t_text = JStr ''a'', t_done = JBool False\<rparr>,
      \<lparr>t_id = JNum 1, t_text = JStr ''b'', t_done = JBool False\<rparr>,
      \<lparr>t_id = JNum 0, t_text = JStr ''c'', t_done = JBool True\<rparr>]
     \<lparr>a_type = JStr ''deleted'', a_id = JNum 0, a_text = JUndefined, a_task = None\<rparr>
   = Inr [\<lparr>t_id = JNum 1, t_text = JStr ''b'', t_done = JBool False\<rparr>]
   \<and> tasksReducer [\<lparr>t_id = JNum 1, t_text = JStr ''b'', t_done = JBool False\<rparr>]
       \<lparr>a_type = JStr ''deleted'', a_id = JNum 0, a_text = JUndefined, a_task = None\<rparr>
     = Inr [\<lparr>t_id = JNum 1, t_text = JStr ''b'', t_done = JBool False\<rparr>]"
  using
    tasksReducer_deleted
      [of "\<lparr>a_type = JStr ''deleted'', a_id = JNum 0, a_text = JUndefined, a_task = None\<rparr>" "JNum 0"
          "[\<lparr>t_id = JNum 0, t_text = JStr ''a'', t_done = JBool False\<rparr>,
            \<lparr>t_id = JNum 1, t_text = JStr ''b'', t_done = JBool False\<rparr>,
            \<lparr>t_id = JNum 0, t_text = JStr ''c'', t_done = JBool True\<rparr>]"]
    tasksReducer_deleted
      [of "\<lparr>a_type = JStr ''deleted'', a_id = JNum 0, a_text = JUndefined, a_task = None\<rparr>" "JNum 0"
          "[\<lparr>t_id = JNum 1, t_text = JStr ''b'', t_done = JBool False\<rparr>]"]
  by (simp add: strictEq_def)

text \<open>
  C9, as stated, fails at the id \<^verbatim>\<open>NaN\<close>: no task of any list has this id, and the
  task added with it is not deleted again, since \<^verbatim>\<open>NaN !== NaN\<close>. On the empty list
  the two steps leave one task.
\<close>

theorem added_then_deleted_NaN:
  "tasksReducer [] \<lparr>a_type = JStr ''added'', a_id = JNaN, a_text = JStr ''a'', a_task = None\<rparr>
     = Inr [\<lparr>t_id = JNaN, t_text = JStr ''a'', t_done = JBool False\<rparr>]
   \<and> tasksReducer [\<lparr>t_id = JNaN, t_text = JStr ''a'', t_done = JBool False\<rparr>]
       \<lparr>a_type = JStr ''deleted'', a_id = JNaN, a_text = JUndefined, a_task = None\<rparr>
     = Inr [\<lparr>t_id = JNaN, t_text = JStr ''a'', t_done = JBool False\<rparr>]
   \<and> tasksReducer [\<lparr>t_id = JNaN, t_text = JStr ''a'', t_done = JBool False\<rparr>]
       \<lparr>a_type = JStr ''deleted'', a_id = JNaN, a_text = JUndefined, a_task = None\<rparr>
     \<noteq> Inr []"
  by (simp add: tasksReducer_def strictEq_def)

text \<open>
  C9, amended: for every id \<open>i\<close> other than \<^verbatim>\<open>NaN\<close> and every tasks list with no
  element of id \<open>i\<close>, the reducer applied to \<^verbatim>\<open>{type: 'added', id: i, text: t}\<close> and
  then, on the result, to \<^verbatim>\<open>{type: 'deleted', id: i}\<close> gives the original tasks list.
\<close>

theorem added_then_deleted:
  assumes "i \<noteq> JNaN" and "\<forall>t \<in> set tasks. \<not> strictEq (t_id t) i"
    and "a_type add = JStr ''added''" and "a_id add = i" and "a_text add = txt"
    and "a_type del = JStr ''deleted''" and "a_id del = i"
  shows "\<exists>r. tasksReducer tasks add = Inr r \<and> tasksReducer r del = Inr tasks"
  using assms by (simp add: tasksReducer_def strictEq_refl)

theorem added_then_deleted_witness:
  "list_all (\<lambda>t. \<not> strictEq (t_id t) (JNum 1))
     [\<lparr>t_id = JNum 0, t_text = JStr ''a'', t_done = JBool False\<rparr>]
   \<and> (\<exists>r. tasksReducer [\<lparr>t_id = JNum 0, t_text = JStr ''a'', t_done = JBool False\<rparr>]
             \<lparr>a_type = JStr ''added'', a_id = JNum 1, a_text = JStr ''b'', a_task = None\<rparr> = Inr r
          \<and> tasksReducer r \<lparr>a_type = JStr ''deleted'', a_id = JNum 1, a_text = JUndefined, a_task = None\<rparr>
              = Inr [\<lparr>t_id = JNum 0, t_text = JStr ''a'', t_done = JBool False\<rparr>])"
  using added_then_deleted
    [of "JNum 1" "[\<lparr>t_id = JNum 0, t_text = JStr ''a'', t_done = JBool False\<rparr>]"
        "\<lparr>a_type = JStr ''added'', a_id = JNum 1, a_text = JStr ''b'', a_task = None\<rparr>" "JStr ''b''"
        "\<lparr>a_type = JStr ''deleted'', a_id = JNum 1, a_text = JUndefined, a_task = None\<rparr>"]
  by (simp add: strictEq_def)

section \<open>Properties of the reducer on the store\<close>

lemma lookup_append: "lookup h p = Some c \<Longrightarrow> lookup (h @ h') p = Some c"
  by (auto simp: lookup_def nth_append split: if_splits)

lemma getTask_append: "getTask h p = Some t \<Longrightarrow> getTask (h @ h') p = Some t"
  by (auto simp: getTask_def dest: lookup_append [where h' = h'] split: option.splits cell.splits)

lemma getArr_append: "getArr h p = Some ps \<Longrightarrow> getArr (h @ h') p = Some ps"
  by (auto simp: getArr_def dest: lookup_append [where h' = h'] split: option.splits cell.splits)

lemma getAction_append: "getAction h p = Some a \<Longrightarrow> getAction (h @ h') p = Some a"
  by (auto simp: getAction_def dest: lookup_append [where h' = h'] split: option.splits cell.splits)

lemma getArr_bound: "getArr h p = Some ps \<Longrightarrow> p < length h"
  by (auto simp: getArr_def lookup_def split: if_splits)

lemma getArr_alloc: "getArr (h @ [Arr qs]) (length h) = Some qs"
  by (simp add: getArr_def lookup_def)

lemma getTask_alloc: "getTask (h @ [TaskObj t]) (length h) = Some t"
  by (simp add: getTask_def lookup_def)

lemma loadTasks_append: "loadTasks h ps = Some ts \<Longrightarrow> loadTasks (h @ h') ps = Some ts"
proof (induction ps arbitrary: ts)
  case Nil
  then show ?case by simp
next
  case (Cons p ps)
  then show ?case
    by (auto split: option.splits dest: getTask_append [where h' = h'])
qed

lemma loadTasks_snoc:
  "loadTasks h ps = Some ts \<Longrightarrow> getTask h q = Some t \<Longrightarrow> loadTasks h (ps @ [q]) = Some (ts @ [t])"
  by (induction ps arbitrary: ts) (auto split: option.splits)

lemma absTasks_append:
  assumes "absTasks h p = Some ts"
  shows "absTasks (h @ h') p = Some ts"
proof -
  from assms obtain ps where "getArr h p = Some ps" and "loadTasks h ps = Some ts"
    by (auto simp: absTasks_def split: option.splits)
  then show ?thesis
    by (simp add: absTasks_def getArr_append loadTasks_append)
qed

lemma absAction_append:
  assumes "absAction h p = Some a"
  shows "absAction (h @ h') p = Some a"
proof -
  from assms obtain ar where ar: "getAction h p = Some ar"
    by (auto simp: absAction_def split: option.splits)
  show ?thesis
  proof (cases "r_task ar")
    case None
    with assms ar show ?thesis
      by (simp add: absAction_def getAction_append)
  next
    case (Some q)
    with assms ar obtain k where "getTask h q = Some k"
      by (auto simp: absAction_def split: option.splits)
    with assms ar Some show ?thesis
      by (simp add: absAction_def getAction_append getTask_append)
  qed
qed

lemma changedMap_h_None:
  "loadTasks h ps = Some ts \<Longrightarrow> changedMap_h h None ps = Some (if ts = [] then Inr [] else Inl TypeError)"
  by (cases ps) (auto split: option.splits)

lemma changedMap_h_Some:
  "loadTasks h ps = Some ts \<Longrightarrow> getTask h q = Some k \<Longrightarrow>
   \<exists>qs. changedMap_h h (Some q) ps = Some (Inr qs) \<and>
        loadTasks h qs = Some (map (\<lambda>t. if strictEq (t_id t) (t_id k) then k else t) ts)"
  by (induction ps arbitrary: ts) (auto split: option.splits)

lemma deletedFilter_h_filter:
  "loadTasks h ps = Some ts \<Longrightarrow>
   \<exists>qs. deletedFilter_h h i ps = Some qs \<and> loadTasks h qs = Some (filter (\<lambda>t. \<not> strictEq (t_id t) i) ts)"
  by (induction ps arbitrary: ts) (auto split: option.splits)

lemma absResult_alloc:
  "loadTasks h qs = Some ts \<Longrightarrow> absResult (h @ [Arr qs]) (Inr (length h)) = Some (Inr ts)"
  by (simp add: absResult_def absTasks_def getArr_alloc loadTasks_append)

text \<open>
  The reducer on the store computes what the reducer on values computes: the two
  definitions are two readings of the same source function.
\<close>

lemma tasksReducer_h_refines:
  assumes "absTasks h tasks = Some ts" and "absAction h action = Some a"
  shows "\<exists>h' r. tasksReducer_h h tasks action = Some (h', r) \<and>
                absResult h' r = Some (tasksReducer ts a)"
proof -
  from assms(1) obtain ps where ps: "getArr h tasks = Some ps" "loadTasks h ps = Some ts"
    by (auto simp: absTasks_def split: option.splits)
  from assms(2) obtain ar where ar: "getAction h action = Some ar"
    and flds: "a_type a = r_type ar" "a_id a = r_id ar" "a_text a = r_text ar"
    and tk: "case r_task ar of None \<Rightarrow> a_task a = None
             | Some q \<Rightarrow> \<exists>k. getTask h q = Some k \<and> a_task a = Some k"
    by (auto simp: absAction_def split: option.splits)
  consider (added) "r_type ar = JStr ''added''"
    | (changed) "r_type ar = JStr ''changed''"
    | (deleted) "r_type ar = JStr ''deleted''"
    | (other) "r_type ar \<noteq> JStr ''added''" "r_type ar \<noteq> JStr ''changed''" "r_type ar \<noteq> JStr ''deleted''"
    by blast
  then show ?thesis
  proof cases
    case added
    let ?t = "\<lparr>t_id = r_id ar, t_text = r_text ar, t_done = JBool False\<rparr>"
    have "loadTasks (h @ [TaskObj ?t]) (ps @ [length h]) = Some (ts @ [?t])"
      by (rule loadTasks_snoc) (simp_all add: ps loadTasks_append getTask_alloc)
    then have "absResult ((h @ [TaskObj ?t]) @ [Arr (ps @ [length h])]) (Inr (length (h @ [TaskObj ?t])))
                 = Some (Inr (ts @ [?t]))"
      by (rule absResult_alloc)
    with added ps ar flds show ?thesis
      by (simp add: tasksReducer_h_def tasksReducer_def alloc_def)
  next
    case changed
    show ?thesis
    proof (cases "r_task ar")
      case None
      with tk have "a_task a = None" by simp
      with changed ps ar flds None show ?thesis
        by (cases ts) (auto simp: tasksReducer_h_def tasksReducer_def alloc_def
            changedMap_h_None [OF ps(2)] absResult_def absTasks_def getArr_alloc)
    next
      case (Some q)
      with tk obtain k where k: "getTask h q = Some k" "a_task a = Some k" by auto
      from changedMap_h_Some [OF ps(2) k(1)] obtain qs where
        qs: "changedMap_h h (Some q) ps = Some (Inr qs)"
            "loadTasks h qs = Some (map (\<lambda>t. if strictEq (t_id t) (t_id k) then k else t) ts)"
        by blast
      from absResult_alloc [OF qs(2)] changed ps ar flds Some k qs(1) show ?thesis
        by (simp add: tasksReducer_h_def tasksReducer_def alloc_def changedMap_Some)
    qed
  next
    case deleted
    from deletedFilter_h_filter [OF ps(2), of "r_id ar"] obtain qs where
      qs: "deletedFilter_h h (r_id ar) ps = Some qs"
          "loadTasks h qs = Some (filter (\<lambda>t. \<not> strictEq (t_id t) (r_id ar)) ts)"
      by blast
    from absResult_alloc [OF qs(2)] deleted ps ar flds qs(1) show ?thesis
      by (simp add: tasksReducer_h_def tasksReducer_def alloc_def)
  next
    case other
    with ps ar flds show ?thesis
      by (cases "toString (r_type ar)")
        (simp_all add: tasksReducer_h_def tasksReducer_def absResult_def)
  qed
qed

lemma tasksReducer_h_extends:
  assumes "tasksReducer_h h tasks action = Some (h', r)"
  shows "\<exists>ext. h' = h @ ext"
  using assms
  by (auto simp: tasksReducer_h_def alloc_def split: option.splits if_splits sum.splits)

lemma tasksReducer_h_result:
  assumes "tasksReducer_h h tasks action = Some (h', Inr p)"
  shows "length h \<le> p \<and> (\<exists>qs. getArr h' p = Some qs)"
  using assms
  by (auto simp: tasksReducer_h_def alloc_def getArr_alloc getArr_alloc [of "h @ [c]" for c, simplified]
      split: option.splits if_splits sum.splits)

text \<open>
  C6: the reducer never mutates its arguments. On every store in which \<open>tasks\<close> is
  an array of tasks and \<open>action\<close> an action, the run ends (with a list or with a thrown
  error), every cell that was in the store is unchanged, so the tasks list and the
  action read as before, and a returned list is at a new address, not that of the input.
\<close>

theorem tasksReducer_h_no_mutation:
  assumes "absTasks h tasks = Some ts" and "absAction h action = Some a"
  shows "\<exists>h' r. tasksReducer_h h tasks action = Some (h', r)
           \<and> take (length h) h' = h
           \<and> absTasks h' tasks = Some ts \<and> absAction h' action = Some a
           \<and> (\<forall>p. r = Inr p \<longrightarrow> p \<noteq> tasks \<and> length h \<le> p \<and> (\<exists>qs. getArr h' p = Some qs))"
proof -
  from tasksReducer_h_refines [OF assms] obtain h' r
    where run: "tasksReducer_h h tasks action = Some (h', r)" by blast
  from tasksReducer_h_extends [OF run] obtain ext where ext: "h' = h @ ext" ..
  have old: "tasks < length h"
    using assms(1) by (auto simp: absTasks_def split: option.splits dest: getArr_bound)
  have fresh: "p \<noteq> tasks \<and> length h \<le> p \<and> (\<exists>qs. getArr h' p = Some qs)" if "r = Inr p" for p
    using tasksReducer_h_result [of h tasks action h' p] run that old by auto
  from run ext assms fresh show ?thesis
    by (auto simp: absTasks_append absAction_append)
qed

text \<open>C6 on a store of three cells: deleting id 0 allocates the empty array at address 3.\<close>

theorem tasksReducer_h_no_mutation_witness:
  "absTasks [TaskObj \<lparr>t_id = JNum 0, t_text = JStr ''a'', t_done = JBool False\<rparr>, Arr [0],
             ActionObj \<lparr>r_type = JStr ''deleted'', r_id = JNum 0, r_text = JUndefined, r_task = None\<rparr>] 1
     = Some [\<lparr>t_id = JNum 0, t_text = JStr ''a'', t_done = JBool False\<rparr>]
   \<and> absAction [TaskObj \<lparr>t_id = JNum 0, t_text = JStr ''a'', t_done = JBool False\<rparr>, Arr [0],
             ActionObj \<lparr>r_type = JStr ''deleted'', r_id = JNum 0, r_text = JUndefined, r_task = None\<rparr>] 2
     = Some \<lparr>a_type = JStr ''deleted'', a_id = JNum 0, a_text = JUndefined, a_task = None\<rparr>
   \<and> tasksReducer_h [TaskObj \<lparr>t_id = JNum 0, t_text = JStr ''a'', t_done = JBool False\<rparr>, Arr [0],
             ActionObj \<lparr>r_type = JStr ''deleted'', r_id = JNum 0, r_text = JUndefined, r_task = None\<rparr>] 1 2
     = Some ([TaskObj \<lparr>t_id = JNum 0, t_text = JStr ''a'', t_done = JBool False\<rparr>, Arr [0],
             ActionObj \<lparr>r_type = JStr ''deleted'', r_id = JNum 0, r_text = JUndefined, r_task = None\<rparr>,
             Arr []], Inr 3)"
proof -
  let ?h = "[TaskObj \<lparr>t_id = JNum 0, t_text = JStr ''a'', t_done = JBool False\<rparr>, Arr [0],
             ActionObj \<lparr>r_type = JStr ''deleted'', r_id = JNum 0, r_text = JUndefined, r_task = None\<rparr>]"
  have t: "absTasks ?h 1 = Some [\<lparr>t_id = JNum 0, t_text = JStr ''a'', t_done = JBool False\<rparr>]"
    by (simp add: absTasks_def getArr_def getTask_def lookup_def)
  have a: "absAction ?h 2 = Some \<lparr>a_type = JStr ''deleted'', a_id = JNum 0, a_text = JUndefined, a_task = None\<rparr>"
    by (simp add: absAction_def getAction_def lookup_def)
  have r: "tasksReducer_h ?h 1 2 = Some (?h @ [Arr []], Inr 3)"
    by (simp add: tasksReducer_h_def getArr_def getAction_def getTask_def lookup_def alloc_def
        strictEq_def)
  from tasksReducer_h_no_mutation [OF t a] t a r show ?thesis by simp
qed

text \<open>
  C7: the reducer is deterministic and reads nothing but its two arguments. Two runs, in
  any two stores and at any addresses, on tasks lists that are equal as values and on
  actions that are equal as values, both end, and with equal outcomes: the same thrown
  error or equal lists, namely what the function on values gives.
\<close>

theorem tasksReducer_h_deterministic:
  assumes "absTasks h1 tasks1 = Some ts" and "absAction h1 action1 = Some a"
    and "absTasks h2 tasks2 = Some ts" and "absAction h2 action2 = Some a"
  shows "\<exists>h1' r1 h2' r2.
           tasksReducer_h h1 tasks1 action1 = Some (h1', r1)
           \<and> tasksReducer_h h2 tasks2 action2 = Some (h2', r2)
           \<and> absResult h1' r1 = Some (tasksReducer ts a)
           \<and> absResult h2' r2 = Some (tasksReducer ts a)"
  using tasksReducer_h_refines [OF assms(1,2)] tasksReducer_h_refines [OF assms(3,4)]
  by blast

text \<open>C7 on two stores that lay the same tasks list and action out differently.\<close>

theorem tasksReducer_h_deterministic_witness:
  "absTasks [TaskObj \<lparr>t_id = JNum 0, t_text = JStr ''a'', t_done = JBool False\<rparr>, Arr [0],
             ActionObj \<lparr>r_type = JStr ''deleted'', r_id = JNum 0, r_text = JUndefined, r_task = None\<rparr>] 1
     = Some [\<lparr>t_id = JNum 0, t_text = JStr ''a'', t_done = JBool False\<rparr>]
   \<and> absTasks [ActionObj \<lparr>r_type = JStr ''deleted'', r_id = JNum 0, r_text = JUndefined, r_task = None\<rparr>,
               Arr [], TaskObj \<lparr>t_id = JNum 0, t_text = JStr ''a'', t_done = JBool False\<rparr>, Arr [2]] 3
     = Some [\<lparr>t_id = JNum 0, t_text = JStr ''a'', t_done = JBool False\<rparr>]
   \<and> (\<exists>h1' r1 h2' r2.
         tasksReducer_h [TaskObj \<lparr>t_id = JNum 0, t_text = JStr ''a'', t_done = JBool False\<rparr>, Arr [0],
             ActionObj \<lparr>r_type = JStr ''deleted'', r_id = JNum 0, r_text = JUndefined, r_task = None\<rparr>] 1 2
           = Some (h1', r1)
         \<and> tasksReducer_h [ActionObj \<lparr>r_type = JStr ''deleted'', r_id = JNum 0, r_text = JUndefined, r_task = None\<rparr>,
               Arr [], TaskObj \<lparr>t_id = JNum 0, t_text = JStr ''a'', t_done = JBool False\<rparr>, Arr [2]] 3 0
           = Some (h2', r2)
         \<and> absResult h1' r1 = Some (Inr [])
         \<and> absResult h2' r2 = Some (Inr []))"
proof -
  let ?h1 = "[TaskObj \<lparr>t_id = JNum 0, t_text = JStr ''a'', t_done = JBool False\<rparr>, Arr [0],
             ActionObj \<lparr>r_type = JStr ''deleted'', r_id = JNum 0, r_text = JUndefined, r_task = None\<rparr>]"
  let ?h2 = "[ActionObj \<lparr>r_type = JStr ''deleted'', r_id = JNum 0, r_text = JUndefined, r_task = None\<rparr>,
               Arr [], TaskObj \<lparr>t_id = JNum 0, t_text = JStr ''a'', t_done = JBool False\<rparr>, Arr [2]]"
  let ?a = "\<lparr>a_type = JStr ''deleted'', a_id = JNum 0, a_text = JUndefined, a_task = None\<rparr>"
  have t1: "absTasks ?h1 1 = Some [\<lparr>t_id = JNum 0, t_text = JStr ''a'', t_done = JBool False\<rparr>]"
    by (simp add: absTasks_def getArr_def getTask_def lookup_def)
  have a1: "absAction ?h1 2 = Some ?a"
    by (simp add: absAction_def getAction_def lookup_def)
  have t2: "absTasks ?h2 3 = Some [\<lparr>t_id = JNum 0, t_text = JStr ''a'', t_done = JBool False\<rparr>]"
    by (simp add: absTasks_def getArr_def getTask_def lookup_def)
  have a2: "absAction ?h2 0 = Some ?a"
    by (simp add: absAction_def getAction_def lookup_def)
  from tasksReducer_h_deterministic [OF t1 a1 t2 a2] t1 t2 show ?thesis
    by (simp add: tasksReducer_def strictEq_def)
qed

section \<open>Properties of the components\<close>

lemma collapse_trailing_space: "collapse st (s @ '' '') = collapse st s"
  by (induction s arbitrary: st) (simp_all add: isSpace_def)

lemma visibleText_trailing_space: "visibleText (s @ '' '') = visibleText s"
  by (simp add: visibleText_def collapse_trailing_space)

lemma textContent_Item_if:
  "textContent (Item_if name isPacked) = Some (if isPacked then name @ '' '' @ checkmark else name)"
  by (simp add: Item_if_def)

lemma textContent_Item_ternary:
  "textContent (Item_ternary name isPacked) = Some (if isPacked then name @ '' '' @ checkmark else name)"
  by (simp add: Item_ternary_def)

text \<open>
  The text of the third variant ends in the space between its two expressions when the
  item is not packed; the other two variants have no such space.
\<close>

lemma textContent_Item_and:
  "textContent (Item_and name isPacked) =
     Some (if isPacked then name @ '' '' @ checkmark else name @ '' '')"
  by (simp add: Item_and_def)

text \<open>
  C8: the \<^verbatim>\<open>if\<close> variant, the ternary variant and the \<^verbatim>\<open>&&\<close> variant of
  \<^verbatim>\<open>Item\<close> show the same visible content for every name and every \<^verbatim>\<open>isPacked\<close>:
  the name followed by a check mark when it is true, the name alone when it is false.
\<close>

theorem Item_variants_visible:
  "visibleContent (Item_if name isPacked)
     = Some (visibleText (if isPacked then name @ '' '' @ checkmark else name))
   \<and> visibleContent (Item_ternary name isPacked) = visibleContent (Item_if name isPacked)
   \<and> visibleContent (Item_and name isPacked) = visibleContent (Item_if name isPacked)"
  by (simp add: visibleContent_def textContent_Item_if textContent_Item_ternary textContent_Item_and
      visibleText_trailing_space)

theorem Item_variants_visible_witness:
  "visibleContent (Item_if ''Tea'' False) = Some ''Tea''
   \<and> visibleContent (Item_and ''Tea'' False) = Some ''Tea''
   \<and> visibleContent (Item_and ''Space suit'' True) = Some (''Space suit '' @ checkmark)
   \<and> visibleContent (Item_ternary ''Space suit'' True) = Some (''Space suit '' @ checkmark)"
  using Item_variants_visible [of "''Tea''" False] Item_variants_visible [of "''Space suit''" True]
  by (simp add: visibleText_def isSpace_def checkmark_def)

text \<open>
  C2 does not hold on the code. The parent passes \<^verbatim>\<open>person\<close> and \<^verbatim>\<open>size\<close>; the
  child destructures \<^verbatim>\<open>name\<close>, \<^verbatim>\<open>imageId\<close> and \<^verbatim>\<open>size\<close>. Only the size
  arrives: the image has width and height 100, and its \<^verbatim>\<open>src\<close> and \<^verbatim>\<open>alt\<close> are
  \<^verbatim>\<open>undefined\<close>.
\<close>

theorem Avatar_receives_no_person:
  "avatarImg = Some (Element ''img''
      [(''className'', Prim (JStr ''avatar'')), (''src'', Prim JUndefined), (''alt'', Prim JUndefined),
       (''width'', Prim (JNum 100)), (''height'', Prim (JNum 100))] [])"
  by (simp add: avatarImg_def ParentComponent_def Avatar_def getProp_def user_def Let_def)

text \<open>The child as the lesson writes it receives what the same parent passes.\<close>

lemma Avatar_lesson_receives_person:
  "Avatar_lesson [(''person'', user), (''size'', Prim (JNum 100))]
     = Inr (Element ''img''
         [(''className'', Prim (JStr ''avatar'')), (''src'', Prim (JStr ''1bX5QH6'')),
          (''alt'', Prim (JStr ''Lin Lanying'')),
          (''width'', Prim (JNum 100)), (''height'', Prim (JNum 100))] [])"
  by (simp add: Avatar_lesson_def getProp_def user_def Let_def)

section \<open>Properties of the cart hook\<close>

text \<open>
  Adding an item keeps the total equal to the sum of the prices (of integers; of the
  numbers of the code as long as the sums stay safe integers).
\<close>

lemma addItem_total:
  "total c = sumPrices (items c) \<Longrightarrow> total (addItem c it) = sumPrices (items (addItem c it))"
  by (simp add: addItem_def sumPrices_def)

lemma initialCart_total: "total initialCart = sumPrices (items initialCart)"
  by (simp add: initialCart_def sumPrices_def)

text \<open>
  C10 does not hold on the code: the updater of the total in \<^verbatim>\<open>removeItem\<close> calls
  \<^verbatim>\<open>find\<close> on the previous total, so removing an item throws, whether its id is
  in the cart or not, and no state with a smaller or an unchanged total follows.
\<close>

theorem removeItem_throws:
  "removeItem (addItem initialCart \<lparr>i_id = JNum 1, i_price = 5\<rparr>) (JNum 1) = Inl TypeError
   \<and> removeItem initialCart (JNum 7) = Inl TypeError"
  by (simp add: removeItem_def removeItem_total_def)

end
